theory Spec2Isabelle
  imports Complex_Main "HOL-Library.Char_ord" "HOL-Library.List_Lexorder"
begin

section \<open>Python values and exceptions\<close>

text \<open>
  The exceptions the modelled code raises. \<open>ExecutionGraphError\<close>,
  \<open>InvalidStepInputDetected\<close> and \<open>VariableTypeError\<close> are the classes imported from
  \<open>inference.enterprise.workflows.errors\<close>; the others are Python built-ins. A function
  that returns \<open>None\<close> or raises becomes a function into \<open>error + unit\<close>, with
  \<open>Inl\<close> for the exception.
\<close>

datatype error =
    ExecutionGraphError
  | InvalidStepInputDetected
  | VariableTypeError
  | ValueError
  | IndexError
  | AttributeError
  | TypeError
  | OverflowError

text \<open>
  A Python float is a finite number, a NaN or an infinity. Every finite double is a
  rational number, so the finite ones are read as reals; comparing a float with an int
  is exact in Python, as it is here.
\<close>

datatype pyfloat = Finite real | NaN | PosInf | NegInf

datatype pyval =
    PNone
  | PBool bool
  | PInt int
  | PFloat pyfloat
  | PStr string
  | PList "pyval list"

text \<open>Sequencing of two calls that return \<open>None\<close> or raise: the first exception wins.\<close>

definition and_then :: "error + unit \<Rightarrow> error + unit \<Rightarrow> error + unit" where
  "and_then r k = (case r of Inl e \<Rightarrow> Inl e | Inr u \<Rightarrow> k)"

text \<open>\<open>len(v)\<close>: defined on lists and strings, \<open>TypeError\<close> on the other values.\<close>

fun py_len :: "pyval \<Rightarrow> error + int" where
  "py_len (PList xs) = Inr (int (length xs))"
| "py_len (PStr s) = Inr (int (length s))"
| "py_len v = Inl TypeError"

text \<open>
  \<open>xs[i]\<close> on a list: a negative index counts from the end, and an index outside
  \<open>-len(xs) .. len(xs) - 1\<close> raises \<open>IndexError\<close>.
\<close>

definition list_getitem :: "'a list \<Rightarrow> int \<Rightarrow> error + 'a" where
  "list_getitem xs i =
     (if 0 \<le> i \<and> i < int (length xs) then Inr (xs ! nat i)
      else if i < 0 \<and> - int (length xs) \<le> i then Inr (xs ! nat (int (length xs) + i))
      else Inl IndexError)"

fun py_getitem :: "pyval \<Rightarrow> int \<Rightarrow> error + pyval" where
  "py_getitem (PList xs) i = list_getitem xs i"
| "py_getitem (PStr s) i =
     (case list_getitem s i of Inl e \<Rightarrow> Inl e | Inr c \<Rightarrow> Inr (PStr [c]))"
| "py_getitem v i = Inl TypeError"

section \<open>Steps of a workflow graph (entities/steps.py)\<close>

text \<open>
  The classes of \<open>steps.py\<close>. A step is an instance of one of them; its \<open>type\<close> field is
  a \<open>Literal\<close> holding the class name, so \<open>self.type\<close> is \<open>type_name\<close> of the class.
\<close>

datatype step_class =
    RoboflowModel
  | ClassificationModel
  | MultiLabelClassificationModel
  | ObjectDetectionModel
  | KeypointsDetectionModel
  | InstanceSegmentationModel
  | OCRModel
  | Crop
  | Condition
  | DetectionFilter
  | DetectionOffset
  | AbsoluteStaticCrop
  | RelativeStaticCrop
  | ClipComparison
  | DetectionsConsensus

fun type_name :: "step_class \<Rightarrow> string" where
  "type_name RoboflowModel = ''RoboflowModel''"
| "type_name ClassificationModel = ''ClassificationModel''"
| "type_name MultiLabelClassificationModel = ''MultiLabelClassificationModel''"
| "type_name ObjectDetectionModel = ''ObjectDetectionModel''"
| "type_name KeypointsDetectionModel = ''KeypointsDetectionModel''"
| "type_name InstanceSegmentationModel = ''InstanceSegmentationModel''"
| "type_name OCRModel = ''OCRModel''"
| "type_name Crop = ''Crop''"
| "type_name Condition = ''Condition''"
| "type_name DetectionFilter = ''DetectionFilter''"
| "type_name DetectionOffset = ''DetectionOffset''"
| "type_name AbsoluteStaticCrop = ''AbsoluteStaticCrop''"
| "type_name RelativeStaticCrop = ''RelativeStaticCrop''"
| "type_name ClipComparison = ''ClipComparison''"
| "type_name DetectionsConsensus = ''DetectionsConsensus''"

text \<open>
  The validators read a field by its name, \<open>getattr(self, field_name)\<close>, so a step
  carries its data fields as a dictionary from field name to value (\<open>name\<close> included).
  A name that is no data field of the instance raises \<open>AttributeError\<close>.
\<close>

record step =
  cls :: step_class
  attrs :: "string \<rightharpoonup> pyval"

definition getattr :: "step \<Rightarrow> string \<Rightarrow> error + pyval" where
  "getattr self field_name =
     (if field_name = ''type'' then Inr (PStr (type_name (cls self)))
      else case attrs self field_name of
             None \<Rightarrow> Inl AttributeError
           | Some v \<Rightarrow> Inr v)"

text \<open>
  \<open>input_step: GraphNone\<close> is the producer a selector resolved to. The code under
  verification only asks it for \<open>get_type()\<close>.
\<close>

record GraphNone =
  get_type :: string

text \<open>
  The module \<open>inference.enterprise.workflows.entities.validators\<close> is imported by
  \<open>steps.py\<close> but is not among the sources. The functions of it that \<open>steps.py\<close> calls
  and whose behaviour no statement below depends on are parameters of the model,
  collected in one record with their call signatures: the theorems hold for every
  implementation of them. \<open>applicable_fields\<close> is the set of field names passed at the
  call, \<open>allowed_types\<close> the list of the names of the types passed, and the last
  argument of the binding validators the exception class passed as \<open>error=\<close>. The
  functions of that module that decide a statement are modelled further down.
\<close>

record validators =
  is_selector :: "pyval \<Rightarrow> bool"
  validate_selector_holds_image :: "string \<Rightarrow> string \<Rightarrow> GraphNone \<Rightarrow> error + unit"
  validate_selector_is_inference_parameter ::
    "string \<Rightarrow> string \<Rightarrow> GraphNone \<Rightarrow> string set \<Rightarrow> error + unit"
  validate_selector_holds_detections ::
    "pyval \<Rightarrow> pyval \<Rightarrow> pyval \<Rightarrow> string \<Rightarrow> GraphNone \<Rightarrow> string set option \<Rightarrow> error + unit"
  validate_image_biding :: "pyval \<Rightarrow> error + unit"
  validate_field_has_given_type :: "string \<Rightarrow> string list \<Rightarrow> pyval \<Rightarrow> error \<Rightarrow> error + unit"
  validate_field_is_list_of_string :: "pyval \<Rightarrow> string \<Rightarrow> error \<Rightarrow> error + unit"
  validate_value_is_empty_or_positive_number :: "pyval \<Rightarrow> string \<Rightarrow> error \<Rightarrow> error + unit"
  validate_value_is_empty_or_number_in_range_zero_one ::
    "pyval \<Rightarrow> string option \<Rightarrow> error \<Rightarrow> error + unit"
  validate_image_is_valid_selector :: "pyval \<Rightarrow> error + unit"
  validate_field_is_selector_or_has_given_type ::
    "pyval \<Rightarrow> string \<Rightarrow> string list \<Rightarrow> error + unit"
  validate_field_is_empty_or_selector_or_list_of_string :: "pyval \<Rightarrow> string \<Rightarrow> error + unit"
  validate_value_is_empty_or_selector_or_positive_number :: "pyval \<Rightarrow> string \<Rightarrow> error + unit"

subsection \<open>validate_field_selector, class by class\<close>

text \<open>
  The guard every \<open>validate_field_selector\<close> opens with:
  \<open>if not is_selector(selector_or_value=getattr(self, field_name)): raise ExecutionGraphError\<close>.
\<close>

definition field_is_selector_guard :: "validators \<Rightarrow> step \<Rightarrow> string \<Rightarrow> error + unit" where
  "field_is_selector_guard V self field_name =
     (case getattr self field_name of
        Inl e \<Rightarrow> Inl e
      | Inr v \<Rightarrow> if \<not> is_selector V v then Inl ExecutionGraphError else Inr ())"

definition RoboflowModel_validate_field_selector ::
  "validators \<Rightarrow> step \<Rightarrow> string \<Rightarrow> GraphNone \<Rightarrow> int option \<Rightarrow> error + unit" where
  "RoboflowModel_validate_field_selector V self field_name input_step index =
     and_then (field_is_selector_guard V self field_name)
    (and_then (validate_selector_holds_image V (type_name (cls self)) field_name input_step)
              (validate_selector_is_inference_parameter V (type_name (cls self)) field_name
                 input_step {''model_id'', ''disable_active_learning''}))"

text \<open>
  The subclasses call \<open>super().validate_field_selector(field_name=..., input_step=...)\<close>,
  which leaves \<open>index\<close> at its default \<open>None\<close>, and then check their own fields.
\<close>

definition ClassificationModel_validate_field_selector ::
  "validators \<Rightarrow> step \<Rightarrow> string \<Rightarrow> GraphNone \<Rightarrow> int option \<Rightarrow> error + unit" where
  "ClassificationModel_validate_field_selector V self field_name input_step index =
     and_then (RoboflowModel_validate_field_selector V self field_name input_step None)
              (validate_selector_is_inference_parameter V (type_name (cls self)) field_name
                 input_step {''confidence''})"

definition MultiLabelClassificationModel_validate_field_selector ::
  "validators \<Rightarrow> step \<Rightarrow> string \<Rightarrow> GraphNone \<Rightarrow> int option \<Rightarrow> error + unit" where
  "MultiLabelClassificationModel_validate_field_selector V self field_name input_step index =
     and_then (RoboflowModel_validate_field_selector V self field_name input_step None)
              (validate_selector_is_inference_parameter V (type_name (cls self)) field_name
                 input_step {''confidence''})"

definition ObjectDetectionModel_validate_field_selector ::
  "validators \<Rightarrow> step \<Rightarrow> string \<Rightarrow> GraphNone \<Rightarrow> int option \<Rightarrow> error + unit" where
  "ObjectDetectionModel_validate_field_selector V self field_name input_step index =
     and_then (RoboflowModel_validate_field_selector V self field_name input_step None)
              (validate_selector_is_inference_parameter V (type_name (cls self)) field_name
                 input_step
                 {''class_agnostic_nms'', ''class_filter'', ''confidence'', ''iou_threshold'',
                  ''max_detections'', ''max_candidates''})"

definition KeypointsDetectionModel_validate_field_selector ::
  "validators \<Rightarrow> step \<Rightarrow> string \<Rightarrow> GraphNone \<Rightarrow> int option \<Rightarrow> error + unit" where
  "KeypointsDetectionModel_validate_field_selector V self field_name input_step index =
     and_then (ObjectDetectionModel_validate_field_selector V self field_name input_step None)
              (validate_selector_is_inference_parameter V (type_name (cls self)) field_name
                 input_step {''keypoint_confidence''})"

definition InstanceSegmentationModel_validate_field_selector ::
  "validators \<Rightarrow> step \<Rightarrow> string \<Rightarrow> GraphNone \<Rightarrow> int option \<Rightarrow> error + unit" where
  "InstanceSegmentationModel_validate_field_selector V self field_name input_step index =
     and_then (ObjectDetectionModel_validate_field_selector V self field_name input_step None)
              (validate_selector_is_inference_parameter V (type_name (cls self)) field_name
                 input_step {''mask_decode_mode'', ''tradeoff_factor''})"

definition OCRModel_validate_field_selector ::
  "validators \<Rightarrow> step \<Rightarrow> string \<Rightarrow> GraphNone \<Rightarrow> int option \<Rightarrow> error + unit" where
  "OCRModel_validate_field_selector V self field_name input_step index =
     and_then (field_is_selector_guard V self field_name)
              (validate_selector_holds_image V (type_name (cls self)) field_name input_step)"

text \<open>
  \<open>Crop\<close>, \<open>DetectionFilter\<close> and \<open>DetectionOffset\<close> read further attributes of the step
  (\<open>self.name\<close>, \<open>self.image\<close>, \<open>self.detections\<close>, \<open>self.predictions\<close>) as arguments of
  the last call.
\<close>

definition Crop_validate_field_selector ::
  "validators \<Rightarrow> step \<Rightarrow> string \<Rightarrow> GraphNone \<Rightarrow> int option \<Rightarrow> error + unit" where
  "Crop_validate_field_selector V self field_name input_step index =
     and_then (field_is_selector_guard V self field_name)
    (and_then (validate_selector_holds_image V (type_name (cls self)) field_name input_step)
       (case getattr self ''name'' of Inl e \<Rightarrow> Inl e | Inr step_name \<Rightarrow>
         (case getattr self ''image'' of Inl e \<Rightarrow> Inl e | Inr image_selector \<Rightarrow>
           (case getattr self ''detections'' of Inl e \<Rightarrow> Inl e
            | Inr detections_selector \<Rightarrow>
                validate_selector_holds_detections V step_name image_selector
                  detections_selector field_name input_step None))))"

definition Condition_validate_field_selector ::
  "validators \<Rightarrow> step \<Rightarrow> string \<Rightarrow> GraphNone \<Rightarrow> int option \<Rightarrow> error + unit" where
  "Condition_validate_field_selector V self field_name input_step index =
     and_then (field_is_selector_guard V self field_name)
       (let input_type = get_type input_step in
        if field_name \<in> {''left'', ''right''} then
          (if input_type = ''InferenceImage'' then Inl InvalidStepInputDetected else Inr ())
        else Inr ())"

definition DetectionFilter_validate_field_selector ::
  "validators \<Rightarrow> step \<Rightarrow> string \<Rightarrow> GraphNone \<Rightarrow> int option \<Rightarrow> error + unit" where
  "DetectionFilter_validate_field_selector V self field_name input_step index =
     and_then (field_is_selector_guard V self field_name)
       (case getattr self ''name'' of Inl e \<Rightarrow> Inl e | Inr step_name \<Rightarrow>
         (case getattr self ''predictions'' of Inl e \<Rightarrow> Inl e
          | Inr detections_selector \<Rightarrow>
              validate_selector_holds_detections V step_name PNone detections_selector
                field_name input_step (Some {''predictions''})))"

definition DetectionOffset_validate_field_selector ::
  "validators \<Rightarrow> step \<Rightarrow> string \<Rightarrow> GraphNone \<Rightarrow> int option \<Rightarrow> error + unit" where
  "DetectionOffset_validate_field_selector V self field_name input_step index =
     and_then (field_is_selector_guard V self field_name)
    (and_then
       (case getattr self ''name'' of Inl e \<Rightarrow> Inl e | Inr step_name \<Rightarrow>
         (case getattr self ''predictions'' of Inl e \<Rightarrow> Inl e
          | Inr detections_selector \<Rightarrow>
              validate_selector_holds_detections V step_name PNone detections_selector
                field_name input_step (Some {''predictions''})))
       (validate_selector_is_inference_parameter V (type_name (cls self)) field_name
          input_step {''offset_x'', ''offset_y''}))"

definition AbsoluteStaticCrop_validate_field_selector ::
  "validators \<Rightarrow> step \<Rightarrow> string \<Rightarrow> GraphNone \<Rightarrow> int option \<Rightarrow> error + unit" where
  "AbsoluteStaticCrop_validate_field_selector V self field_name input_step index =
     and_then (field_is_selector_guard V self field_name)
    (and_then (validate_selector_holds_image V (type_name (cls self)) field_name input_step)
              (validate_selector_is_inference_parameter V (type_name (cls self)) field_name
                 input_step {''x_center'', ''y_center'', ''width'', ''height''}))"

definition RelativeStaticCrop_validate_field_selector ::
  "validators \<Rightarrow> step \<Rightarrow> string \<Rightarrow> GraphNone \<Rightarrow> int option \<Rightarrow> error + unit" where
  "RelativeStaticCrop_validate_field_selector V self field_name input_step index =
     and_then (field_is_selector_guard V self field_name)
    (and_then (validate_selector_holds_image V (type_name (cls self)) field_name input_step)
              (validate_selector_is_inference_parameter V (type_name (cls self)) field_name
                 input_step {''x_center'', ''y_center'', ''width'', ''height''}))"

definition ClipComparison_validate_field_selector ::
  "validators \<Rightarrow> step \<Rightarrow> string \<Rightarrow> GraphNone \<Rightarrow> int option \<Rightarrow> error + unit" where
  "ClipComparison_validate_field_selector V self field_name input_step index =
     and_then (field_is_selector_guard V self field_name)
    (and_then (validate_selector_holds_image V (type_name (cls self)) field_name input_step)
              (validate_selector_is_inference_parameter V (type_name (cls self)) field_name
                 input_step {''text''}))"

text \<open>
  \<open>DetectionsConsensus\<close> is the one class with a list-valued input. For \<open>predictions\<close>
  the opening guard is skipped, and the conditions are evaluated in the order of the
  source: \<open>index is None\<close> first, then \<open>index > len(self.predictions)\<close>, then the
  subscript \<open>self.predictions[index]\<close>, which raises \<open>IndexError\<close> by itself when the
  index is out of range.
\<close>

definition DetectionsConsensus_validate_field_selector ::
  "validators \<Rightarrow> step \<Rightarrow> string \<Rightarrow> GraphNone \<Rightarrow> int option \<Rightarrow> error + unit" where
  "DetectionsConsensus_validate_field_selector V self field_name input_step index =
     and_then
       (if field_name \<noteq> ''predictions'' then field_is_selector_guard V self field_name
        else Inr ())
       (if field_name = ''predictions'' then
          (case index of
             None \<Rightarrow> Inl ExecutionGraphError
           | Some i \<Rightarrow>
              (case getattr self ''predictions'' of Inl e \<Rightarrow> Inl e | Inr predictions \<Rightarrow>
                (case py_len predictions of Inl e \<Rightarrow> Inl e | Inr n \<Rightarrow>
                   if i > n then Inl ExecutionGraphError
                   else
                     (case py_getitem predictions i of Inl e \<Rightarrow> Inl e | Inr element \<Rightarrow>
                        if \<not> is_selector V element then Inl ExecutionGraphError
                        else
                          (case getattr self ''name'' of Inl e \<Rightarrow> Inl e
                           | Inr step_name \<Rightarrow>
                               validate_selector_holds_detections V step_name PNone element
                                 field_name input_step (Some {''predictions''}))))))
        else
          validate_selector_is_inference_parameter V (type_name (cls self)) field_name
            input_step
            {''required_votes'', ''class_aware'', ''iou_threshold'', ''confidence'',
             ''classes_to_consider'', ''required_objects''})"

text \<open>Method dispatch on the class of the step.\<close>

definition validate_field_selector ::
  "validators \<Rightarrow> step \<Rightarrow> string \<Rightarrow> GraphNone \<Rightarrow> int option \<Rightarrow> error + unit" where
  "validate_field_selector V self field_name input_step index =
     (case cls self of
        RoboflowModel \<Rightarrow> RoboflowModel_validate_field_selector V self field_name input_step index
      | ClassificationModel \<Rightarrow>
          ClassificationModel_validate_field_selector V self field_name input_step index
      | MultiLabelClassificationModel \<Rightarrow>
          MultiLabelClassificationModel_validate_field_selector V self field_name input_step index
      | ObjectDetectionModel \<Rightarrow>
          ObjectDetectionModel_validate_field_selector V self field_name input_step index
      | KeypointsDetectionModel \<Rightarrow>
          KeypointsDetectionModel_validate_field_selector V self field_name input_step index
      | InstanceSegmentationModel \<Rightarrow>
          InstanceSegmentationModel_validate_field_selector V self field_name input_step index
      | OCRModel \<Rightarrow> OCRModel_validate_field_selector V self field_name input_step index
      | Crop \<Rightarrow> Crop_validate_field_selector V self field_name input_step index
      | Condition \<Rightarrow> Condition_validate_field_selector V self field_name input_step index
      | DetectionFilter \<Rightarrow>
          DetectionFilter_validate_field_selector V self field_name input_step index
      | DetectionOffset \<Rightarrow>
          DetectionOffset_validate_field_selector V self field_name input_step index
      | AbsoluteStaticCrop \<Rightarrow>
          AbsoluteStaticCrop_validate_field_selector V self field_name input_step index
      | RelativeStaticCrop \<Rightarrow>
          RelativeStaticCrop_validate_field_selector V self field_name input_step index
      | ClipComparison \<Rightarrow>
          ClipComparison_validate_field_selector V self field_name input_step index
      | DetectionsConsensus \<Rightarrow>
          DetectionsConsensus_validate_field_selector V self field_name input_step index)"

subsection \<open>Field validators run at construction\<close>

text \<open>\<open>check(...); return value\<close>: the shape of every field validator of \<open>steps.py\<close>.\<close>

definition returning :: "error + unit \<Rightarrow> pyval \<Rightarrow> error + pyval" where
  "returning r v = (case r of Inl e \<Rightarrow> Inl e | Inr u \<Rightarrow> Inr v)"

text \<open>
  The number a value stands for in a comparison: \<open>bool\<close> is a subclass of \<open>int\<close>, with
  \<open>True == 1\<close> and \<open>False == 0\<close>.
\<close>

fun py_number :: "pyval \<Rightarrow> pyfloat option" where
  "py_number (PBool b) = Some (Finite (of_bool b))"
| "py_number (PInt n) = Some (Finite (of_int n))"
| "py_number (PFloat f) = Some f"
| "py_number v = None"

fun in_range_zero_one :: "pyfloat \<Rightarrow> bool" where
  "in_range_zero_one (Finite x) = (0 \<le> x \<and> x \<le> 1)"
| "in_range_zero_one f = False"

text \<open>
  Modelled from the spec: \<open>validate_field_is_in_range_zero_one_or_empty_or_selector\<close> of
  \<open>validators.py\<close>, which is not among the sources. The spec has the numeric fields
  "constrained to [0,1] when literal, or selector to a scalar-parameter kind", and a
  literal outside the constraint fail construction; the name of the function adds that
  an empty value (\<open>None\<close>) passes. The error is the \<open>ValueError\<close> a pydantic field
  validator reports with. \<open>field_name\<close> is \<open>None\<close> where the call leaves it out.
\<close>

definition validate_field_is_in_range_zero_one_or_empty_or_selector ::
  "validators \<Rightarrow> pyval \<Rightarrow> string option \<Rightarrow> error + unit" where
  "validate_field_is_in_range_zero_one_or_empty_or_selector V v field_name =
     (if is_selector V v \<or> v = PNone then Inr ()
      else case py_number v of
             None \<Rightarrow> Inl ValueError
           | Some f \<Rightarrow> if in_range_zero_one f then Inr () else Inl ValueError)"

text \<open>\<open>DECODE_MODES = {"accurate", "tradeoff", "fast"}\<close>\<close>

definition DECODE_MODES :: "string set" where
  "DECODE_MODES = {''accurate'', ''tradeoff'', ''fast''}"

text \<open>
  Modelled from the spec: \<open>validate_field_is_one_of_selected_values\<close> of
  \<open>validators.py\<close>, which is not among the sources. The spec has \<open>mask_decode_mode\<close>
  "constrained to an enumerated set", a value outside of it failing "with an
  enumerated-value error": the function raises the exception class it is given unless
  the value is one of \<open>selected_values\<close>.
\<close>

definition validate_field_is_one_of_selected_values ::
  "pyval \<Rightarrow> string \<Rightarrow> string set \<Rightarrow> error \<Rightarrow> error + unit" where
  "validate_field_is_one_of_selected_values v field_name selected_values err =
     (case v of
        PStr s \<Rightarrow> if s \<in> selected_values then Inr () else Inl err
      | _ \<Rightarrow> Inl err)"

text \<open>
  Modelled from the spec: \<open>validate_field_is_selector_or_one_of_values\<close> of
  \<open>validators.py\<close>, which is not among the sources: as its name says, a selector
  passes, and any other value must be one of \<open>selected_values\<close>, with the \<open>ValueError\<close>
  of a field validator otherwise.
\<close>

definition validate_field_is_selector_or_one_of_values ::
  "validators \<Rightarrow> pyval \<Rightarrow> string \<Rightarrow> string set \<Rightarrow> error + unit" where
  "validate_field_is_selector_or_one_of_values V v field_name selected_values =
     (if is_selector V v then Inr ()
      else validate_field_is_one_of_selected_values v field_name selected_values ValueError)"

text \<open>
  Modelled from the spec: \<open>validate_field_is_list_of_selectors\<close> of \<open>validators.py\<close>,
  which is not among the sources. The spec has \<open>predictions\<close> "a non-empty list of
  selectors": the function raises \<open>ValueError\<close> unless the value is a list whose
  elements are all selectors (the length is checked by the caller).
\<close>

definition validate_field_is_list_of_selectors ::
  "validators \<Rightarrow> pyval \<Rightarrow> string \<Rightarrow> error + unit" where
  "validate_field_is_list_of_selectors V v field_name =
     (case v of
        PList xs \<Rightarrow> if list_all (is_selector V) xs then Inr () else Inl ValueError
      | _ \<Rightarrow> Inl ValueError)"

text \<open>
  A method decorated with \<open>@field_validator(f1, f2, ...)\<close>: its name in the class body,
  the fields it is registered for, and the function.
\<close>

type_synonym field_validator = "string \<times> string list \<times> (pyval \<Rightarrow> error + pyval)"

text \<open>
  pydantic collects the field validators of a class from its bases, oldest first, into
  a dictionary keyed by the name of the method, and then adds the ones of the class
  body: a method that has the name of an inherited one replaces it (in its position),
  as an overriding method does; a new name is appended.
\<close>

fun replace_or_append :: "field_validator \<Rightarrow> field_validator list \<Rightarrow> field_validator list" where
  "replace_or_append d [] = [d]"
| "replace_or_append d (e # es) =
     (if fst e = fst d then d # es else e # replace_or_append d es)"

definition inherit_field_validators ::
  "field_validator list \<Rightarrow> field_validator list \<Rightarrow> field_validator list" where
  "inherit_field_validators base own = foldl (\<lambda>acc d. replace_or_append d acc) base own"

text \<open>
  Constructing a step runs, on the value given for a field, the collected validators
  registered for that field, in order, each on the value the one before returned; the
  first exception fails the construction.
\<close>

fun run_field_validators :: "field_validator list \<Rightarrow> string \<Rightarrow> pyval \<Rightarrow> error + pyval" where
  "run_field_validators [] field_name v = Inr v"
| "run_field_validators (d # ds) field_name v =
     (if field_name \<in> set (fst (snd d)) then
        (case snd (snd d) v of
           Inl e \<Rightarrow> Inl e
         | Inr v' \<Rightarrow> run_field_validators ds field_name v')
      else run_field_validators ds field_name v)"

text \<open>The decorated methods of each class of the model family, in the order of the source.\<close>

definition RoboflowModel_field_validators :: "validators \<Rightarrow> field_validator list" where
  "RoboflowModel_field_validators V =
     [(''validate_image'', [''image''],
         \<lambda>v. returning (validate_image_is_valid_selector V v) v),
      (''model_id_must_be_selector_or_str'', [''model_id''],
         \<lambda>v. returning
               (validate_field_is_selector_or_has_given_type V v ''model_id'' [''str'']) v),
      (''disable_active_learning_must_be_selector_or_bool'', [''disable_active_learning''],
         \<lambda>v. returning
               (validate_field_is_selector_or_has_given_type V v ''disable_active_learning''
                  [''NoneType'', ''bool'']) v)]"

definition ClassificationModel_field_validators :: "validators \<Rightarrow> field_validator list" where
  "ClassificationModel_field_validators V =
     inherit_field_validators (RoboflowModel_field_validators V)
       [(''confidence_must_be_selector_or_number'', [''confidence''],
           \<lambda>v. returning
                 (validate_field_is_in_range_zero_one_or_empty_or_selector V v None) v)]"

definition MultiLabelClassificationModel_field_validators ::
  "validators \<Rightarrow> field_validator list" where
  "MultiLabelClassificationModel_field_validators V =
     inherit_field_validators (RoboflowModel_field_validators V)
       [(''confidence_must_be_selector_or_number'', [''confidence''],
           \<lambda>v. returning
                 (validate_field_is_in_range_zero_one_or_empty_or_selector V v None) v)]"

definition ObjectDetectionModel_field_validators :: "validators \<Rightarrow> field_validator list" where
  "ObjectDetectionModel_field_validators V =
     inherit_field_validators (RoboflowModel_field_validators V)
       [(''class_agnostic_nms_must_be_selector_or_bool'', [''class_agnostic_nms''],
           \<lambda>v. returning
                 (validate_field_is_selector_or_has_given_type V v ''class_agnostic_nms''
                    [''NoneType'', ''bool'']) v),
        (''class_filter_must_be_selector_or_list_of_string'', [''class_filter''],
           \<lambda>v. returning
                 (validate_field_is_empty_or_selector_or_list_of_string V v ''class_filter'') v),
        (''field_must_be_selector_or_number_from_zero_to_one'',
           [''confidence'', ''iou_threshold''],
           \<lambda>v. returning
                 (validate_field_is_in_range_zero_one_or_empty_or_selector V v
                    (Some ''confidence | iou_threshold'')) v),
        (''field_must_be_selector_or_positive_number'', [''max_detections'', ''max_candidates''],
           \<lambda>v. returning
                 (validate_value_is_empty_or_selector_or_positive_number V v
                    ''max_detections | max_candidates'') v)]"

definition KeypointsDetectionModel_field_validators :: "validators \<Rightarrow> field_validator list" where
  "KeypointsDetectionModel_field_validators V =
     inherit_field_validators (ObjectDetectionModel_field_validators V)
       [(''keypoint_confidence_field_must_be_selector_or_number_from_zero_to_one'',
           [''keypoint_confidence''],
           \<lambda>v. returning
                 (validate_field_is_in_range_zero_one_or_empty_or_selector V v
                    (Some ''keypoint_confidence'')) v)]"

definition InstanceSegmentationModel_field_validators ::
  "validators \<Rightarrow> field_validator list" where
  "InstanceSegmentationModel_field_validators V =
     inherit_field_validators (ObjectDetectionModel_field_validators V)
       [(''mask_decode_mode_must_be_selector_or_one_of_allowed_values'', [''mask_decode_mode''],
           \<lambda>v. returning
                 (validate_field_is_selector_or_one_of_values V v ''mask_decode_mode''
                    DECODE_MODES) v),
        (''field_must_be_selector_or_number_from_zero_to_one'', [''tradeoff_factor''],
           \<lambda>v. returning
                 (validate_field_is_in_range_zero_one_or_empty_or_selector V v
                    (Some ''tradeoff_factor'')) v)]"

text \<open>
  \<open>DetectionsConsensus.predictions_must_be_list_of_selectors\<close>: the helper, then the
  length check of the source.
\<close>

definition DetectionsConsensus_predictions_must_be_list_of_selectors ::
  "validators \<Rightarrow> pyval \<Rightarrow> error + pyval" where
  "DetectionsConsensus_predictions_must_be_list_of_selectors V v =
     (case validate_field_is_list_of_selectors V v ''predictions'' of
        Inl e \<Rightarrow> Inl e
      | Inr u \<Rightarrow>
         (case py_len v of
            Inl e \<Rightarrow> Inl e
          | Inr n \<Rightarrow> if n < 1 then Inl ValueError else Inr v))"

subsection \<open>validate_field_binding\<close>

definition RoboflowModel_validate_field_binding ::
  "validators \<Rightarrow> step \<Rightarrow> string \<Rightarrow> pyval \<Rightarrow> error + unit" where
  "RoboflowModel_validate_field_binding V self field_name v =
     (if field_name = ''image'' then validate_image_biding V v
      else if field_name = ''model_id'' then
        validate_field_has_given_type V field_name [''str''] v VariableTypeError
      else if field_name = ''disable_active_learning'' then
        validate_field_has_given_type V field_name [''bool''] v VariableTypeError
      else Inr ())"

definition ObjectDetectionModel_validate_field_binding ::
  "validators \<Rightarrow> step \<Rightarrow> string \<Rightarrow> pyval \<Rightarrow> error + unit" where
  "ObjectDetectionModel_validate_field_binding V self field_name v =
     and_then (RoboflowModel_validate_field_binding V self field_name v)
       (if v = PNone then Inl VariableTypeError
        else if field_name = ''class_agnostic_nms'' then
          validate_field_has_given_type V field_name [''bool''] v VariableTypeError
        else if field_name = ''class_filter'' then
          (if v = PNone then Inr ()
           else validate_field_is_list_of_string V v field_name VariableTypeError)
        else if field_name = ''confidence'' \<or> field_name = ''iou_threshold'' then
          validate_value_is_empty_or_number_in_range_zero_one V v (Some field_name)
            VariableTypeError
        else if field_name = ''max_detections'' \<or> field_name = ''max_candidates'' then
          validate_value_is_empty_or_positive_number V v field_name VariableTypeError
        else Inr ())"

definition InstanceSegmentationModel_validate_field_binding ::
  "validators \<Rightarrow> step \<Rightarrow> string \<Rightarrow> pyval \<Rightarrow> error + unit" where
  "InstanceSegmentationModel_validate_field_binding V self field_name v =
     and_then (ObjectDetectionModel_validate_field_binding V self field_name v)
       (if field_name = ''mask_decode_mode'' then
          validate_field_is_one_of_selected_values v field_name DECODE_MODES VariableTypeError
        else if field_name = ''tradeoff_factor'' then
          validate_value_is_empty_or_number_in_range_zero_one V v (Some field_name)
            VariableTypeError
        else Inr ())"

text \<open>
  \<open>issubclass(type(value), int)\<close> holds of the ints and of the bools,
  \<open>issubclass(type(value), float)\<close> of the floats.
\<close>

fun is_int_instance :: "pyval \<Rightarrow> bool" where
  "is_int_instance (PBool b) = True"
| "is_int_instance (PInt n) = True"
| "is_int_instance v = False"

fun is_float_instance :: "pyval \<Rightarrow> bool" where
  "is_float_instance (PFloat f) = True"
| "is_float_instance v = False"

text \<open>
  \<open>round(x)\<close> with one argument gives an int: the nearest integer, a tie going to the
  even neighbour. On a NaN it raises \<open>ValueError\<close>, on an infinity \<open>OverflowError\<close>, and
  on a value that is no number \<open>TypeError\<close>.
\<close>

definition round_half_even :: "real \<Rightarrow> int" where
  "round_half_even x =
     (let f = \<lfloor>x\<rfloor>; d = x - of_int f
      in if d < 1 / 2 then f
         else if 1 / 2 < d then f + 1
         else if even f then f else f + 1)"

fun py_round :: "pyval \<Rightarrow> error + int" where
  "py_round (PBool b) = Inr (of_bool b)"
| "py_round (PInt n) = Inr n"
| "py_round (PFloat (Finite x)) = Inr (round_half_even x)"
| "py_round (PFloat NaN) = Inl ValueError"
| "py_round (PFloat PosInf) = Inl OverflowError"
| "py_round (PFloat NegInf) = Inl OverflowError"
| "py_round v = Inl TypeError"

text \<open>\<open>value != n\<close> for an int \<open>n\<close>: numbers compare by their exact values.\<close>

fun differs_from_int :: "pyval \<Rightarrow> int \<Rightarrow> bool" where
  "differs_from_int (PBool b) n = (of_bool b \<noteq> n)"
| "differs_from_int (PInt m) n = (m \<noteq> n)"
| "differs_from_int (PFloat (Finite x)) n = (x \<noteq> of_int n)"
| "differs_from_int v n = True"

text \<open>
  In \<open>AbsoluteStaticCrop.validate_field_binding\<close> the test is
  \<open>(not int and not float) or value != round(value)\<close>: \<open>round\<close> is only reached for an
  int or a float.
\<close>

definition AbsoluteStaticCrop_validate_field_binding ::
  "validators \<Rightarrow> step \<Rightarrow> string \<Rightarrow> pyval \<Rightarrow> error + unit" where
  "AbsoluteStaticCrop_validate_field_binding V self field_name v =
     and_then (if field_name = ''image'' then validate_image_biding V v else Inr ())
       (if field_name \<in> {''x_center'', ''y_center'', ''width'', ''height''} then
          (if \<not> is_int_instance v \<and> \<not> is_float_instance v then Inl VariableTypeError
           else case py_round v of
                  Inl e \<Rightarrow> Inl e
                | Inr r \<Rightarrow> if differs_from_int v r then Inl VariableTypeError else Inr ())
        else Inr ())"

section \<open>Usage payloads (usage_tracking/collector_utils.py)\<close>

subsection \<open>The operators of Python that \<open>merge_usage_dicts\<close> applies to the values\<close>

text \<open>
  \<open>==\<close> and \<open><\<close> compare numbers by their exact values across \<open>bool\<close>, \<open>int\<close> and
  \<open>float\<close>; a NaN is equal to nothing and below or above nothing. Strings compare by
  content and lexicographically (a string is its list of bytes, whose order is the
  order of the code points), lists element by element. \<open><\<close> between values of
  different kinds, or on \<open>None\<close>, raises \<open>TypeError\<close>. The identity of objects is not
  modelled.
\<close>

fun float_eq :: "pyfloat \<Rightarrow> pyfloat \<Rightarrow> bool" where
  "float_eq NaN g = False"
| "float_eq f NaN = False"
| "float_eq f g = (f = g)"


fun py_eq :: "pyval \<Rightarrow> pyval \<Rightarrow> bool"
  and py_eq_list :: "pyval list \<Rightarrow> pyval list \<Rightarrow> bool" where
  "py_eq PNone PNone = True"
| "py_eq (PStr s) (PStr t) = (s = t)"
| "py_eq (PList xs) (PList ys) = py_eq_list xs ys"
| "py_eq a b =
     (case (py_number a, py_number b) of
        (Some f, Some g) \<Rightarrow> float_eq f g
      | _ \<Rightarrow> False)"
| "py_eq_list [] [] = True"
| "py_eq_list (x # xs) (y # ys) = (py_eq x y \<and> py_eq_list xs ys)"
| "py_eq_list xs ys = False"











subsection \<open>merge_usage_dicts\<close>





section \<open>The workspace name of an API key (core_steps/sinks/roboflow/data_collector.py)\<close>

text \<open>\<open>WORKSPACE_NAME_CACHE_EXPIRE = 900  # 15 min\<close>\<close>

definition WORKSPACE_NAME_CACHE_EXPIRE :: nat where
  "WORKSPACE_NAME_CACHE_EXPIRE = 900"

text \<open>
  \<open>BaseCache\<close> (\<open>inference.core.cache.base\<close>) is not among the sources:
  \<open>get_workspace_name\<close> uses its \<open>get(key)\<close> and \<open>set(key, value, expire)\<close>, which are
  parameters here, over any type \<open>'c\<close> of cache states; \<open>set\<close> returns the new state.
  \<open>get\<close> gives \<open>None\<close> for a key it does not hold.
\<close>

record 'c base_cache =
  cache_get :: "'c \<Rightarrow> string \<Rightarrow> pyval"
  cache_set :: "'c \<Rightarrow> string \<Rightarrow> pyval \<Rightarrow> nat \<Rightarrow> 'c"

text \<open>The truth value of \<open>if v:\<close>.\<close>

fun py_truthy :: "pyval \<Rightarrow> bool" where
  "py_truthy PNone = False"
| "py_truthy (PBool b) = b"
| "py_truthy (PInt n) = (n \<noteq> 0)"
| "py_truthy (PFloat f) = (f \<noteq> Finite 0)"
| "py_truthy (PStr s) = (s \<noteq> [])"
| "py_truthy (PList xs) = (xs \<noteq> [])"

text \<open>
  \<open>md5_hexdigest\<close> stands for \<open>hashlib.md5(s.encode("utf-8")).hexdigest()\<close> and
  \<open>get_roboflow_workspace\<close> for the call to the Roboflow API, which returns the name
  or raises. The result is the value returned together with the cache afterwards; a
  function body that ends without \<open>return\<close> returns \<open>None\<close>.
\<close>

definition get_workspace_name ::
  "(string \<Rightarrow> string) \<Rightarrow> (string \<Rightarrow> error + string) \<Rightarrow> 'c base_cache \<Rightarrow>
   string \<Rightarrow> 'c \<Rightarrow> error + (pyval \<times> 'c)" where
  "get_workspace_name md5_hexdigest get_roboflow_workspace C api_key cache =
     (let api_key_hash = md5_hexdigest api_key;
          cache_key = ''workflows:api_key_to_workspace:'' @ api_key_hash;
          cached_workspace_name = cache_get C cache cache_key
      in if py_truthy cached_workspace_name then Inr (cached_workspace_name, cache)
         else
           (case get_roboflow_workspace api_key of
              Inl e \<Rightarrow> Inl e
            | Inr workspace_name_from_api \<Rightarrow>
                Inr (PNone,
                     cache_set C cache cache_key (PStr workspace_name_from_api)
                       WORKSPACE_NAME_CACHE_EXPIRE)))"

section \<open>Concrete instances for running the model\<close>

text \<open>
  An instance of the functions of \<open>validators.py\<close> that are parameters of the model,
  for running the theorems on concrete inputs: a string that starts with \<open>$\<close> (as
  \<open>$inputs.image\<close> or \<open>$steps.detect.predictions\<close> do) is a selector, and every other
  check passes.
\<close>

definition sample_validators :: validators where
  "sample_validators =
     \<lparr>is_selector = (\<lambda>v. case v of PStr s \<Rightarrow> take 1 s = ''$'' | _ \<Rightarrow> False),
      validate_selector_holds_image = (\<lambda>step_type field_name input_step. Inr ()),
      validate_selector_is_inference_parameter =
        (\<lambda>step_type field_name input_step applicable_fields. Inr ()),
      validate_selector_holds_detections =
        (\<lambda>step_name image_selector detections_selector field_name input_step
            applicable_fields. Inr ()),
      validate_image_biding = (\<lambda>v. Inr ()),
      validate_field_has_given_type = (\<lambda>field_name allowed_types v err. Inr ()),
      validate_field_is_list_of_string = (\<lambda>v field_name err. Inr ()),
      validate_value_is_empty_or_positive_number = (\<lambda>v field_name err. Inr ()),
      validate_value_is_empty_or_number_in_range_zero_one = (\<lambda>v field_name err. Inr ()),
      validate_image_is_valid_selector = (\<lambda>v. Inr ()),
      validate_field_is_selector_or_has_given_type = (\<lambda>v field_name allowed_types. Inr ()),
      validate_field_is_empty_or_selector_or_list_of_string = (\<lambda>v field_name. Inr ()),
      validate_value_is_empty_or_selector_or_positive_number = (\<lambda>v field_name. Inr ())\<rparr>"

text \<open>
  A cache kept in a dictionary from key to the value stored and its expiry in seconds,
  for running \<open>get_workspace_name\<close> on concrete inputs.
\<close>

definition dict_cache :: "(string \<rightharpoonup> pyval \<times> nat) base_cache" where
  "dict_cache =
     \<lparr>cache_get = (\<lambda>c k. case c k of None \<Rightarrow> PNone | Some e \<Rightarrow> fst e),
      cache_set = (\<lambda>c k v expire. c(k \<mapsto> (v, expire)))\<rparr>"

section \<open>Selector validation: the guard, the index and the kind exclusion\<close>

lemma and_then_Inl [simp]: "and_then (Inl e) k = Inl e"
  by (simp add: and_then_def)

lemma and_then_Inr [simp]: "and_then (Inr u) k = k"
  by (simp add: and_then_def)

lemmas validate_field_selector_defs =
  RoboflowModel_validate_field_selector_def ClassificationModel_validate_field_selector_def
  MultiLabelClassificationModel_validate_field_selector_def
  ObjectDetectionModel_validate_field_selector_def
  KeypointsDetectionModel_validate_field_selector_def
  InstanceSegmentationModel_validate_field_selector_def
  OCRModel_validate_field_selector_def Crop_validate_field_selector_def
  Condition_validate_field_selector_def DetectionFilter_validate_field_selector_def
  DetectionOffset_validate_field_selector_def AbsoluteStaticCrop_validate_field_selector_def
  RelativeStaticCrop_validate_field_selector_def ClipComparison_validate_field_selector_def
  DetectionsConsensus_validate_field_selector_def

text \<open>
  C2. For a \<open>Condition\<close> step whose field \<open>left\<close> or \<open>right\<close> holds a selector,
  \<open>validate_field_selector\<close> raises \<open>InvalidStepInputDetected\<close> exactly when the producer
  the selector resolved to has the type \<open>InferenceImage\<close>, and returns normally for a
  producer of any other type, whatever index is passed.
\<close>

theorem condition_rejects_exactly_image_producers:
  assumes "cls self = Condition"
    and "field_name = ''left'' \<or> field_name = ''right''"
    and "getattr self field_name = Inr v"
    and "is_selector V v"
  shows "validate_field_selector V self field_name input_step index =
           (if get_type input_step = ''InferenceImage'' then Inl InvalidStepInputDetected
            else Inr ())"
  using assms
  by (auto simp add: validate_field_selector_def Condition_validate_field_selector_def
        field_is_selector_guard_def)

theorem condition_rejects_exactly_image_producers_witness:
  "validate_field_selector sample_validators
     \<lparr>cls = Condition, attrs = [''left'' \<mapsto> PStr ''$steps.detect.predictions'']\<rparr>
     ''left'' \<lparr>get_type = ''InferenceImage''\<rparr> None = Inl InvalidStepInputDetected
   \<and> validate_field_selector sample_validators
     \<lparr>cls = Condition, attrs = [''left'' \<mapsto> PStr ''$steps.detect.predictions'']\<rparr>
     ''left'' \<lparr>get_type = ''ObjectDetectionModel''\<rparr> None = Inr ()"
proof -
  let ?s = "\<lparr>cls = Condition, attrs = [''left'' \<mapsto> PStr ''$steps.detect.predictions'']\<rparr>"
  have c: "cls ?s = Condition" by simp
  have f: "''left'' = ''left'' \<or> ''left'' = ''right''" by simp
  have g: "getattr ?s ''left'' = Inr (PStr ''$steps.detect.predictions'')"
    by (simp add: getattr_def)
  have i: "is_selector sample_validators (PStr ''$steps.detect.predictions'')"
    by (simp add: sample_validators_def)
  show ?thesis
    using condition_rejects_exactly_image_producers [OF c f g i, of "\<lparr>get_type = ''InferenceImage''\<rparr>" None]
      condition_rejects_exactly_image_producers [OF c f g i, of "\<lparr>get_type = ''ObjectDetectionModel''\<rparr>" None]
    by simp
qed

text \<open>
  C4. The source guards the subscript with \<open>index > len(self.predictions)\<close>, which lets
  the index that equals the length through: on a \<open>DetectionsConsensus\<close> step with one
  prediction, validating \<open>predictions\<close> at index 1 ends in the \<open>IndexError\<close> of
  \<open>self.predictions[1]\<close>, not in \<open>ExecutionGraphError\<close>, whatever the functions of
  \<open>validators.py\<close> do.
\<close>

theorem consensus_index_equal_to_length_raises_IndexError:
  "validate_field_selector V
     \<lparr>cls = DetectionsConsensus,
      attrs = [''name'' \<mapsto> PStr ''consensus'',
               ''predictions'' \<mapsto> PList [PStr ''$steps.a.predictions'']]\<rparr>
     ''predictions'' input_step (Some 1) = Inl IndexError"
  by (simp add: validate_field_selector_def DetectionsConsensus_validate_field_selector_def
        getattr_def list_getitem_def)

text \<open>
  C8. For every class of step and every field of it other than the list-valued
  \<open>predictions\<close> of \<open>DetectionsConsensus\<close>: when the value stored in the field is not a
  selector, \<open>validate_field_selector\<close> raises \<open>ExecutionGraphError\<close>, whatever the
  producer, the index and the kind checks of \<open>validators.py\<close> are; so the validation of
  such a field can only return normally when the field holds a selector.
\<close>

theorem non_selector_field_raises_ExecutionGraphError:
  assumes "cls self = DetectionsConsensus \<longrightarrow> field_name \<noteq> ''predictions''"
    and "getattr self field_name = Inr v"
  shows "(\<not> is_selector V v \<longrightarrow>
            validate_field_selector V self field_name input_step index =
              Inl ExecutionGraphError)
       \<and> (validate_field_selector V self field_name input_step index = Inr () \<longrightarrow>
            is_selector V v)"
proof -
  have guard: "validate_field_selector V self field_name input_step index =
                 Inl ExecutionGraphError" if "\<not> is_selector V v"
    using assms that
    by (cases "cls self")
       (simp_all add: validate_field_selector_def validate_field_selector_defs
          field_is_selector_guard_def)
  show ?thesis
  proof (cases "is_selector V v")
    case True
    then show ?thesis by simp
  next
    case False
    then show ?thesis using guard by simp
  qed
qed

theorem non_selector_field_raises_ExecutionGraphError_witness:
  "validate_field_selector sample_validators
     \<lparr>cls = ObjectDetectionModel, attrs = [''confidence'' \<mapsto> PFloat (Finite (2 / 5))]\<rparr>
     ''confidence'' \<lparr>get_type = ''InferenceParameter''\<rparr> None = Inl ExecutionGraphError"
proof -
  let ?s = "\<lparr>cls = ObjectDetectionModel, attrs = [''confidence'' \<mapsto> PFloat (Finite (2 / 5))]\<rparr>"
  have c: "cls ?s = DetectionsConsensus \<longrightarrow> ''confidence'' \<noteq> ''predictions''" by simp
  have g: "getattr ?s ''confidence'' = Inr (PFloat (Finite (2 / 5)))"
    by (simp add: getattr_def)
  have n: "\<not> is_selector sample_validators (PFloat (Finite (2 / 5)))"
    by (simp add: sample_validators_def)
  show ?thesis
    using non_selector_field_raises_ExecutionGraphError
            [OF c g, of sample_validators "\<lparr>get_type = ''InferenceParameter''\<rparr>" None] n
    by simp
qed

text \<open>
  C1, as the code has it. \<open>validate_field_selector\<close> needs the index only for the
  list-valued \<open>predictions\<close> of \<open>DetectionsConsensus\<close>, where leaving it out raises
  \<open>ExecutionGraphError\<close>. For every other field of every class an index that is
  supplied is not looked at: the outcome is the one of the call without index.
\<close>

theorem index_required_only_for_consensus_predictions:
  "(cls self = DetectionsConsensus \<longrightarrow>
      validate_field_selector V self ''predictions'' input_step None = Inl ExecutionGraphError)
   \<and> ((cls self = DetectionsConsensus \<longrightarrow> field_name \<noteq> ''predictions'') \<longrightarrow>
      validate_field_selector V self field_name input_step (Some i) =
      validate_field_selector V self field_name input_step None)"
  by (cases "cls self")
     (simp_all add: validate_field_selector_def validate_field_selector_defs)

theorem index_required_only_for_consensus_predictions_witness:
  "validate_field_selector sample_validators
     \<lparr>cls = DetectionsConsensus,
      attrs = [''predictions'' \<mapsto> PList [PStr ''$steps.a.predictions'']]\<rparr>
     ''predictions'' \<lparr>get_type = ''ObjectDetectionModel''\<rparr> None = Inl ExecutionGraphError
   \<and> validate_field_selector sample_validators
     \<lparr>cls = Condition, attrs = [''left'' \<mapsto> PStr ''$inputs.threshold'']\<rparr>
     ''left'' \<lparr>get_type = ''InferenceParameter''\<rparr> (Some 0) =
     validate_field_selector sample_validators
     \<lparr>cls = Condition, attrs = [''left'' \<mapsto> PStr ''$inputs.threshold'']\<rparr>
     ''left'' \<lparr>get_type = ''InferenceParameter''\<rparr> None"
  using index_required_only_for_consensus_predictions
      [of "\<lparr>cls = DetectionsConsensus,
             attrs = [''predictions'' \<mapsto> PList [PStr ''$steps.a.predictions'']]\<rparr>"
          sample_validators "\<lparr>get_type = ''ObjectDetectionModel''\<rparr>" "''x''" 0]
    index_required_only_for_consensus_predictions
      [of "\<lparr>cls = Condition, attrs = [''left'' \<mapsto> PStr ''$inputs.threshold'']\<rparr>"
          sample_validators "\<lparr>get_type = ''InferenceParameter''\<rparr>" "''left''" 0]
  by simp

text \<open>
  The single-valued field \<open>left\<close> of a \<open>Condition\<close> step, bound to a selector of a
  workflow parameter, validates with the index 0 supplied: no arity error is raised.
\<close>

theorem index_on_single_valued_field_is_accepted:
  "validate_field_selector sample_validators
     \<lparr>cls = Condition, attrs = [''left'' \<mapsto> PStr ''$inputs.threshold'']\<rparr>
     ''left'' \<lparr>get_type = ''InferenceParameter''\<rparr> (Some 0) = Inr ()"
  by (simp add: validate_field_selector_def Condition_validate_field_selector_def
        field_is_selector_guard_def getattr_def sample_validators_def)

section \<open>Validation at construction\<close>

text \<open>
  C3. The field validator of \<open>predictions\<close> in \<open>DetectionsConsensus\<close> raises
  \<open>ValueError\<close> on the empty list and on every list with an element that is not a
  selector, and returns a non-empty list of selectors unchanged: the step cannot be
  constructed with an empty or ill-formed \<open>predictions\<close>.
\<close>

theorem consensus_predictions_validated_at_construction:
  "DetectionsConsensus_predictions_must_be_list_of_selectors V (PList []) = Inl ValueError
   \<and> (x \<in> set xs \<and> \<not> is_selector V x \<longrightarrow>
        DetectionsConsensus_predictions_must_be_list_of_selectors V (PList xs) = Inl ValueError)
   \<and> (xs \<noteq> [] \<and> (\<forall>y \<in> set xs. is_selector V y) \<longrightarrow>
        DetectionsConsensus_predictions_must_be_list_of_selectors V (PList xs) = Inr (PList xs))"
  by (auto simp add: DetectionsConsensus_predictions_must_be_list_of_selectors_def
        validate_field_is_list_of_selectors_def list_all_iff)

theorem consensus_predictions_validated_at_construction_witness:
  "DetectionsConsensus_predictions_must_be_list_of_selectors sample_validators
     (PList [PStr ''$steps.a.predictions'', PStr ''steps.b.predictions'']) = Inl ValueError
   \<and> DetectionsConsensus_predictions_must_be_list_of_selectors sample_validators
     (PList [PStr ''$steps.a.predictions'', PStr ''$steps.b.predictions'']) =
       Inr (PList [PStr ''$steps.a.predictions'', PStr ''$steps.b.predictions''])"
proof -
  have a: "is_selector sample_validators (PStr ''$steps.a.predictions'')"
    by (simp add: sample_validators_def)
  have b: "is_selector sample_validators (PStr ''$steps.b.predictions'')"
    by (simp add: sample_validators_def)
  have n: "\<not> is_selector sample_validators (PStr ''steps.b.predictions'')"
    by (simp add: sample_validators_def)
  show ?thesis
    using consensus_predictions_validated_at_construction
            [of sample_validators "PStr ''steps.b.predictions''"
                "[PStr ''$steps.a.predictions'', PStr ''steps.b.predictions'']"]
          consensus_predictions_validated_at_construction
            [of sample_validators "PStr ''$steps.a.predictions''"
                "[PStr ''$steps.a.predictions'', PStr ''$steps.b.predictions'']"]
          a b n
    by simp
qed

lemma run_mask_decode_mode_validators:
  "run_field_validators (InstanceSegmentationModel_field_validators V) ''mask_decode_mode'' v =
     returning (validate_field_is_selector_or_one_of_values V v ''mask_decode_mode'' DECODE_MODES) v"
  by (simp add: InstanceSegmentationModel_field_validators_def
        ObjectDetectionModel_field_validators_def RoboflowModel_field_validators_def
        inherit_field_validators_def returning_def split: sum.splits)

lemma one_of_selected_values:
  "validate_field_is_one_of_selected_values v field_name S err =
     (if v \<in> PStr ` S then Inr () else Inl err)"
  by (cases v) (auto simp add: validate_field_is_one_of_selected_values_def)

text \<open>
  C5. For \<open>InstanceSegmentationModel\<close>: a value of \<open>mask_decode_mode\<close> that is neither a
  selector nor one of \<open>"accurate"\<close>, \<open>"tradeoff"\<close>, \<open>"fast"\<close> fails the field validators
  run at construction with \<open>ValueError\<close>; \<open>validate_field_binding\<close> raises
  \<open>VariableTypeError\<close> for every value outside the three; and each of the three is
  accepted by both.
\<close>

theorem mask_decode_mode_is_enumerated:
  "(\<not> is_selector V v \<and> v \<notin> PStr ` DECODE_MODES \<longrightarrow>
      run_field_validators (InstanceSegmentationModel_field_validators V)
        ''mask_decode_mode'' v = Inl ValueError)
   \<and> (v \<notin> PStr ` DECODE_MODES \<longrightarrow>
      InstanceSegmentationModel_validate_field_binding V self ''mask_decode_mode'' v =
        Inl VariableTypeError)
   \<and> (v \<in> PStr ` DECODE_MODES \<longrightarrow>
      run_field_validators (InstanceSegmentationModel_field_validators V)
        ''mask_decode_mode'' v = Inr v
      \<and> InstanceSegmentationModel_validate_field_binding V self ''mask_decode_mode'' v = Inr ())"
proof -
  have binding:
    "InstanceSegmentationModel_validate_field_binding V self ''mask_decode_mode'' v =
       (if v \<in> PStr ` DECODE_MODES then Inr () else Inl VariableTypeError)"
    by (auto simp add: InstanceSegmentationModel_validate_field_binding_def
          ObjectDetectionModel_validate_field_binding_def
          RoboflowModel_validate_field_binding_def one_of_selected_values)
  have construction:
    "run_field_validators (InstanceSegmentationModel_field_validators V)
       ''mask_decode_mode'' v =
       (if is_selector V v \<or> v \<in> PStr ` DECODE_MODES then Inr v else Inl ValueError)"
    by (simp add: run_mask_decode_mode_validators returning_def
          validate_field_is_selector_or_one_of_values_def one_of_selected_values)
  show ?thesis using binding construction by simp
qed

theorem mask_decode_mode_is_enumerated_witness:
  "run_field_validators (InstanceSegmentationModel_field_validators sample_validators)
     ''mask_decode_mode'' (PStr ''ultra'') = Inl ValueError
   \<and> InstanceSegmentationModel_validate_field_binding sample_validators
        \<lparr>cls = InstanceSegmentationModel, attrs = Map.empty\<rparr> ''mask_decode_mode''
        (PStr ''ultra'') = Inl VariableTypeError
   \<and> run_field_validators (InstanceSegmentationModel_field_validators sample_validators)
        ''mask_decode_mode'' (PStr ''fast'') = Inr (PStr ''fast'')
   \<and> InstanceSegmentationModel_validate_field_binding sample_validators
        \<lparr>cls = InstanceSegmentationModel, attrs = Map.empty\<rparr> ''mask_decode_mode''
        (PStr ''fast'') = Inr ()"
proof -
  have ultra: "PStr ''ultra'' \<notin> PStr ` DECODE_MODES" by (simp add: DECODE_MODES_def image_iff)
  have fast: "PStr ''fast'' \<in> PStr ` DECODE_MODES" by (simp add: DECODE_MODES_def)
  have lit: "\<not> is_selector sample_validators (PStr ''ultra'')"
    by (simp add: sample_validators_def)
  show ?thesis
    using mask_decode_mode_is_enumerated
            [of sample_validators "PStr ''ultra''"
                "\<lparr>cls = InstanceSegmentationModel, attrs = Map.empty\<rparr>"]
          mask_decode_mode_is_enumerated
            [of sample_validators "PStr ''fast''"
                "\<lparr>cls = InstanceSegmentationModel, attrs = Map.empty\<rparr>"]
          ultra fast lit
    by simp
qed

text \<open>
  The confidence of the four other classes of the model family is range-checked at
  construction: a number outside \<open>[0, 1]\<close> fails with \<open>ValueError\<close>.
\<close>

lemma confidence_validated_in_the_other_model_classes:
  assumes "py_number v = Some f" and "\<not> in_range_zero_one f" and "\<not> is_selector V v"
  shows "run_field_validators (ClassificationModel_field_validators V) ''confidence'' v =
           Inl ValueError"
    and "run_field_validators (MultiLabelClassificationModel_field_validators V)
           ''confidence'' v = Inl ValueError"
    and "run_field_validators (ObjectDetectionModel_field_validators V) ''confidence'' v =
           Inl ValueError"
    and "run_field_validators (KeypointsDetectionModel_field_validators V) ''confidence'' v =
           Inl ValueError"
  using assms
  by (auto simp add: ClassificationModel_field_validators_def
        MultiLabelClassificationModel_field_validators_def
        ObjectDetectionModel_field_validators_def KeypointsDetectionModel_field_validators_def
        RoboflowModel_field_validators_def inherit_field_validators_def returning_def
        validate_field_is_in_range_zero_one_or_empty_or_selector_def)

text \<open>
  The validators \<open>InstanceSegmentationModel\<close> ends up with, by name: the method
  \<open>field_must_be_selector_or_number_from_zero_to_one\<close> it defines for \<open>tradeoff_factor\<close>
  has taken the place of the inherited method of that name, which was the one
  registered for \<open>confidence\<close> and \<open>iou_threshold\<close>.
\<close>

lemma instance_segmentation_validator_names:
  "map (\<lambda>d. (fst d, fst (snd d))) (InstanceSegmentationModel_field_validators V) =
     [(''validate_image'', [''image'']),
      (''model_id_must_be_selector_or_str'', [''model_id'']),
      (''disable_active_learning_must_be_selector_or_bool'', [''disable_active_learning'']),
      (''class_agnostic_nms_must_be_selector_or_bool'', [''class_agnostic_nms'']),
      (''class_filter_must_be_selector_or_list_of_string'', [''class_filter'']),
      (''field_must_be_selector_or_number_from_zero_to_one'', [''tradeoff_factor'']),
      (''field_must_be_selector_or_positive_number'', [''max_detections'', ''max_candidates'']),
      (''mask_decode_mode_must_be_selector_or_one_of_allowed_values'', [''mask_decode_mode''])]"
  by (simp add: InstanceSegmentationModel_field_validators_def
        ObjectDetectionModel_field_validators_def RoboflowModel_field_validators_def
        inherit_field_validators_def)

text \<open>
  C6. In \<open>InstanceSegmentationModel\<close> no validator is left for \<open>confidence\<close>: the
  literal 1.5 passes the field validators run at construction, whatever the functions
  of \<open>validators.py\<close> do.
\<close>

theorem instance_segmentation_confidence_not_validated:
  "run_field_validators (InstanceSegmentationModel_field_validators V) ''confidence''
     (PFloat (Finite (3 / 2))) = Inr (PFloat (Finite (3 / 2)))"
  by (simp add: InstanceSegmentationModel_field_validators_def
        ObjectDetectionModel_field_validators_def RoboflowModel_field_validators_def
        inherit_field_validators_def)

section \<open>Binding of the coordinates of an absolute crop\<close>

lemma round_half_even_fixpoint: "x = of_int (round_half_even x) \<longleftrightarrow> x \<in> \<int>"
proof
  assume "x = of_int (round_half_even x)"
  then show "x \<in> \<int>" by (metis Ints_of_int)
next
  assume "x \<in> \<int>"
  then obtain k where "x = of_int k" by (auto elim: Ints_cases)
  then show "x = of_int (round_half_even x)"
    by (simp add: round_half_even_def)
qed

text \<open>
  Away from the NaN and the infinities the binding of a coordinate field of
  \<open>AbsoluteStaticCrop\<close> does what its message says: \<open>validate_field_binding\<close> returns
  normally on an int (a bool included) and on a finite float with an integral value,
  and raises \<open>VariableTypeError\<close> on a finite float that is not integral and on every
  value that is neither an int nor a float.
\<close>

theorem absolute_crop_coordinate_binding:
  assumes "field_name \<in> {''x_center'', ''y_center'', ''width'', ''height''}"
  shows "(is_int_instance v \<longrightarrow>
            AbsoluteStaticCrop_validate_field_binding V self field_name v = Inr ())
       \<and> (v = PFloat (Finite x) \<longrightarrow>
            AbsoluteStaticCrop_validate_field_binding V self field_name v =
              (if x \<in> \<int> then Inr () else Inl VariableTypeError))
       \<and> (\<not> is_int_instance v \<and> \<not> is_float_instance v \<longrightarrow>
            AbsoluteStaticCrop_validate_field_binding V self field_name v =
              Inl VariableTypeError)"
proof -
  have not_image: "field_name \<noteq> ''image''" using assms by auto
  have ints: "AbsoluteStaticCrop_validate_field_binding V self field_name v = Inr ()"
    if "is_int_instance v"
    using that assms not_image
    by (cases v) (simp_all add: AbsoluteStaticCrop_validate_field_binding_def)
  have floats: "AbsoluteStaticCrop_validate_field_binding V self field_name (PFloat (Finite x)) =
                  (if x \<in> \<int> then Inr () else Inl VariableTypeError)"
    using assms not_image round_half_even_fixpoint [of x]
    by (simp add: AbsoluteStaticCrop_validate_field_binding_def)
  have others: "AbsoluteStaticCrop_validate_field_binding V self field_name v =
                  Inl VariableTypeError"
    if "\<not> is_int_instance v" and "\<not> is_float_instance v"
    using that assms not_image
    by (simp add: AbsoluteStaticCrop_validate_field_binding_def)
  show ?thesis using ints floats others by blast
qed

theorem absolute_crop_coordinate_binding_witness:
  "AbsoluteStaticCrop_validate_field_binding sample_validators
     \<lparr>cls = AbsoluteStaticCrop, attrs = Map.empty\<rparr> ''x_center'' (PFloat (Finite (5 / 2)))
     = Inl VariableTypeError
   \<and> AbsoluteStaticCrop_validate_field_binding sample_validators
     \<lparr>cls = AbsoluteStaticCrop, attrs = Map.empty\<rparr> ''width'' (PInt 10)
     = Inr ()
   \<and> AbsoluteStaticCrop_validate_field_binding sample_validators
     \<lparr>cls = AbsoluteStaticCrop, attrs = Map.empty\<rparr> ''height'' (PStr ''20'')
     = Inl VariableTypeError"
proof -
  have half: "(5 / 2 :: real) \<notin> \<int>"
  proof
    assume "(5 / 2 :: real) \<in> \<int>"
    then obtain k :: int where "(5 / 2 :: real) = of_int k" by (auto elim: Ints_cases)
    then have "(5 :: real) = of_int (2 * k)" by simp
    then have "(5 :: int) = 2 * k" by (metis of_int_eq_iff of_int_numeral)
    then show False by presburger
  qed
  have field1: "''x_center'' \<in> {''x_center'', ''y_center'', ''width'', ''height''}" by simp
  have field2: "''width'' \<in> {''x_center'', ''y_center'', ''width'', ''height''}" by simp
  have field3: "''height'' \<in> {''x_center'', ''y_center'', ''width'', ''height''}" by simp
  show ?thesis
    using absolute_crop_coordinate_binding
            [OF field1, of "PFloat (Finite (5 / 2))" sample_validators
                "\<lparr>cls = AbsoluteStaticCrop, attrs = Map.empty\<rparr>" "5 / 2"]
          absolute_crop_coordinate_binding
            [OF field2, of "PInt 10" sample_validators
                "\<lparr>cls = AbsoluteStaticCrop, attrs = Map.empty\<rparr>" 0]
          absolute_crop_coordinate_binding
            [OF field3, of "PStr ''20''" sample_validators
                "\<lparr>cls = AbsoluteStaticCrop, attrs = Map.empty\<rparr>" 0]
          half
    by simp
qed

text \<open>
  C7. A NaN and an infinity are floats that are not equal to their rounding, yet binding
  one to \<open>x_center\<close> does not raise \<open>VariableTypeError\<close>: \<open>round(value)\<close> is evaluated
  inside the test and raises \<open>ValueError\<close> on the NaN and \<open>OverflowError\<close> on the
  infinities, for every step and whatever the functions of \<open>validators.py\<close> do.
\<close>

theorem absolute_crop_nan_raises_ValueError:
  "AbsoluteStaticCrop_validate_field_binding V self ''x_center'' (PFloat NaN) = Inl ValueError
   \<and> AbsoluteStaticCrop_validate_field_binding V self ''x_center'' (PFloat PosInf) =
       Inl OverflowError
   \<and> AbsoluteStaticCrop_validate_field_binding V self ''x_center'' (PFloat NegInf) =
       Inl OverflowError"
  by (simp add: AbsoluteStaticCrop_validate_field_binding_def)

section \<open>The workspace name and the cache\<close>

text \<open>
  C10. When the cache holds a true (non-empty) value under the key of the hashed API
  key, \<open>get_workspace_name\<close> returns that value and leaves the cache as it is. When it
  does not, and the API gives a name, the name is stored under that key with the
  expiry of 900 seconds, and the function returns \<open>None\<close>, not the name.
\<close>

theorem get_workspace_name_hit_and_miss:
  "(py_truthy (cache_get C cache (''workflows:api_key_to_workspace:'' @ md5_hexdigest api_key)) \<longrightarrow>
      get_workspace_name md5_hexdigest get_roboflow_workspace C api_key cache =
        Inr (cache_get C cache (''workflows:api_key_to_workspace:'' @ md5_hexdigest api_key), cache))
   \<and> (\<not> py_truthy (cache_get C cache (''workflows:api_key_to_workspace:'' @ md5_hexdigest api_key))
        \<and> get_roboflow_workspace api_key = Inr workspace \<longrightarrow>
      get_workspace_name md5_hexdigest get_roboflow_workspace C api_key cache =
        Inr (PNone,
             cache_set C cache (''workflows:api_key_to_workspace:'' @ md5_hexdigest api_key)
               (PStr workspace) 900))"
  by (simp add: get_workspace_name_def WORKSPACE_NAME_CACHE_EXPIRE_def)

theorem get_workspace_name_hit_and_miss_witness:
  "get_workspace_name (\<lambda>s. ''5d41402abc4b2a76b9719d911017c592'') (\<lambda>k. Inr ''my-workspace'')
     dict_cache ''hello'' Map.empty =
     Inr (PNone,
          [''workflows:api_key_to_workspace:5d41402abc4b2a76b9719d911017c592'' \<mapsto>
             (PStr ''my-workspace'', 900)])
   \<and> get_workspace_name (\<lambda>s. ''5d41402abc4b2a76b9719d911017c592'') (\<lambda>k. Inr ''other'')
     dict_cache ''hello''
     [''workflows:api_key_to_workspace:5d41402abc4b2a76b9719d911017c592'' \<mapsto>
        (PStr ''my-workspace'', 900)] =
     Inr (PStr ''my-workspace'',
          [''workflows:api_key_to_workspace:5d41402abc4b2a76b9719d911017c592'' \<mapsto>
             (PStr ''my-workspace'', 900)])"
  using get_workspace_name_hit_and_miss
          [of dict_cache Map.empty "\<lambda>s. ''5d41402abc4b2a76b9719d911017c592''" "''hello''"
              "\<lambda>k. Inr ''my-workspace''" "''my-workspace''"]
        get_workspace_name_hit_and_miss
          [of dict_cache
              "[''workflows:api_key_to_workspace:5d41402abc4b2a76b9719d911017c592'' \<mapsto>
                  (PStr ''my-workspace'', 900)]"
              "\<lambda>s. ''5d41402abc4b2a76b9719d911017c592''" "''hello''"
              "\<lambda>k. Inr ''other''" "''other''"]
  by (simp add: dict_cache_def)

section \<open>Merging usage payloads\<close>











































end
